theory Spec2Isabelle
  imports Main "HOL-Library.Sublist"
begin

section \<open>The asset-transfer driver (app.js)\<close>

text \<open>
  The program is one script, \<^verbatim>\<open>asset-transfer-basic/application-javascript/app.js\<close>:
  three module constants, the helper \<^verbatim>\<open>prettyJSONString\<close> and the asynchronous
  function \<^verbatim>\<open>main\<close>, which calls helpers and the Fabric SDK one after the other
  (every asynchronous call is awaited at once, so the run is sequential).

  Everything that \<^verbatim>\<open>main\<close> calls lives outside the script. The model takes
  those operations as a parameter, the \<open>platform\<close>: each operation reads and updates
  an outside world of type \<open>'w\<close> and either returns a value or throws. The driver
  itself is translated statement by statement; it records every call it issues, the
  completion of that call, and every console line in a trace.
\<close>

subsection \<open>Values, errors, events\<close>

text \<open>A JavaScript object (connection profile, wallet, gateway, ...) is an opaque reference.\<close>

type_synonym ref = nat

text \<open>
  A thrown value is an \<^verbatim>\<open>Error\<close> object with a name and a message. The template
  literal \<^verbatim>\<open>${error}\<close> renders it with \<^verbatim>\<open>Error.prototype.toString\<close>.
\<close>

datatype js_error = JsError (err_name: string) (err_message: string)

fun error_toString :: "js_error \<Rightarrow> string" where
  "error_toString (JsError n m) =
     (if n = [] then m else if m = [] then n else n @ '': '' @ m)"

text \<open>The options object literal of \<^verbatim>\<open>gateway.connect\<close> (lines 102-106).\<close>

record connect_options =
  wallet :: ref
  identity :: string
  discovery_enabled :: bool
  discovery_asLocalhost :: bool

text \<open>
  The calls the driver issues, with their arguments, and the events of a run. A
  submission that resolves is followed by \<open>Returned\<close>, which carries the payload it
  resolved with.
\<close>

datatype call =
    BuildCCPOrg1
  | BuildCAClient ref string
  | BuildWallet string
  | EnrollAdmin ref ref string
  | RegisterAndEnrollUser ref ref string string string
  | GatewayConnect ref ref connect_options
  | GetNetwork ref string
  | GetContract ref string
  | SubmitTransaction ref string "string list"
  | JSONParse string
  | GatewayDisconnect ref

datatype event =
    Invoke call
  | Resolved call
  | Returned call string
  | Rejected call js_error
  | NewGateway ref
  | ConsoleLog string
  | ConsoleError string
  | ProcessExit nat

subsection \<open>The process and the platform\<close>

text \<open>
  \<^verbatim>\<open>process.env\<close> maps variable names to strings (an unset variable reads as
  \<^verbatim>\<open>undefined\<close>); \<open>dirname\<close> is \<^verbatim>\<open>__dirname\<close>.
\<close>

record process =
  env :: "string \<rightharpoonup> string"
  dirname :: string

text \<open>
  The operations outside the script. Those that the script awaits or that read files
  may throw (\<open>Inl\<close>). The constructor \<^verbatim>\<open>new Gateway()\<close> and the synchronous
  \<^verbatim>\<open>gateway.disconnect()\<close> only update the world. \<^verbatim>\<open>JSON.parse\<close> throws on
  text that is not JSON; \<open>JSON_stringify\<close> is \<^verbatim>\<open>JSON.stringify(v, null, 2)\<close> on a
  parsed value, which returns a string. The \<^verbatim>\<open>Buffer\<close> that \<^verbatim>\<open>submitTransaction\<close>
  resolves with is modelled by its text, which is what \<^verbatim>\<open>JSON.parse\<close> reads of it.
  The class argument \<^verbatim>\<open>FabricCAServices\<close> of \<^verbatim>\<open>buildCAClient\<close> and
  \<^verbatim>\<open>Wallets\<close> of \<^verbatim>\<open>buildWallet\<close> are module constants and are left out.
\<close>

record ('w, 'j) platform =
  path_join :: "string \<Rightarrow> string \<Rightarrow> string"
  JSON_parse :: "string \<Rightarrow> js_error + 'j"
  JSON_stringify :: "'j \<Rightarrow> string"
  buildCCPOrg1 :: "'w \<Rightarrow> (js_error + ref) \<times> 'w"
  buildCAClient :: "ref \<Rightarrow> string \<Rightarrow> 'w \<Rightarrow> (js_error + ref) \<times> 'w"
  buildWallet :: "string \<Rightarrow> 'w \<Rightarrow> (js_error + ref) \<times> 'w"
  enrollAdmin :: "ref \<Rightarrow> ref \<Rightarrow> string \<Rightarrow> 'w \<Rightarrow> (js_error + unit) \<times> 'w"
  registerAndEnrollUser ::
    "ref \<Rightarrow> ref \<Rightarrow> string \<Rightarrow> string \<Rightarrow> string \<Rightarrow> 'w \<Rightarrow> (js_error + unit) \<times> 'w"
  new_Gateway :: "'w \<Rightarrow> ref \<times> 'w"
  connect :: "ref \<Rightarrow> ref \<Rightarrow> connect_options \<Rightarrow> 'w \<Rightarrow> (js_error + unit) \<times> 'w"
  getNetwork :: "ref \<Rightarrow> string \<Rightarrow> 'w \<Rightarrow> (js_error + ref) \<times> 'w"
  getContract :: "ref \<Rightarrow> string \<Rightarrow> 'w \<Rightarrow> (js_error + ref) \<times> 'w"
  submitTransaction :: "ref \<Rightarrow> string \<Rightarrow> string list \<Rightarrow> 'w \<Rightarrow> (js_error + string) \<times> 'w"
  disconnect :: "ref \<Rightarrow> 'w \<Rightarrow> 'w"

subsection \<open>Statements: state, sequencing, calls\<close>

text \<open>The state of a run: the outside world and the trace so far.\<close>

type_synonym 'w state = "'w \<times> event list"

type_synonym ('w, 'a) stmt = "'w state \<Rightarrow> (js_error + 'a) \<times> 'w state"

text \<open>\<open>bnd m f\<close>: run \<open>m\<close>; if it throws, the rest is skipped.\<close>

definition bnd :: "('w, 'a) stmt \<Rightarrow> ('a \<Rightarrow> ('w, 'b) stmt) \<Rightarrow> ('w, 'b) stmt" where
  "bnd m f = (\<lambda>s. case m s of (Inl e, s') \<Rightarrow> (Inl e, s') | (Inr v, s') \<Rightarrow> f v s')"

text \<open>
  A call that may throw: it is issued, then it resolves or rejects. For an awaited call
  these are the outcomes of its promise; for a synchronous call (\<^verbatim>\<open>buildCCPOrg1\<close>,
  \<^verbatim>\<open>buildCAClient\<close>, \<^verbatim>\<open>getContract\<close>, \<^verbatim>\<open>JSON.parse\<close>) resolved means that it
  returned and rejected that it threw. Since every promise is awaited where it is
  created, nothing else of the script runs between the two events.
\<close>

definition ext :: "call \<Rightarrow> ('w \<Rightarrow> (js_error + 'a) \<times> 'w) \<Rightarrow> ('w, 'a) stmt" where
  "ext c f = (\<lambda>(w, tr). case f w of
       (Inl e, w') \<Rightarrow> (Inl e, (w', tr @ [Invoke c, Rejected c e]))
     | (Inr v, w') \<Rightarrow> (Inr v, (w', tr @ [Invoke c, Resolved c])))"

text \<open>
  \<^verbatim>\<open>await contract.submitTransaction(f, ...args)\<close>: as \<open>ext\<close>, and the payload the
  promise resolved with is recorded.
\<close>

definition submit ::
  "('w, 'j) platform \<Rightarrow> ref \<Rightarrow> string \<Rightarrow> string list \<Rightarrow> ('w, string) stmt" where
  "submit P contract f args = (\<lambda>(w, tr). case submitTransaction P contract f args w of
       (Inl e, w') \<Rightarrow>
         (Inl e, (w', tr @ [Invoke (SubmitTransaction contract f args),
                            Rejected (SubmitTransaction contract f args) e]))
     | (Inr v, w') \<Rightarrow>
         (Inr v, (w', tr @ [Invoke (SubmitTransaction contract f args),
                            Resolved (SubmitTransaction contract f args),
                            Returned (SubmitTransaction contract f args) v])))"

definition console_log :: "string \<Rightarrow> ('w, unit) stmt" where
  "console_log s = (\<lambda>(w, tr). (Inr (), (w, tr @ [ConsoleLog s])))"

definition create_Gateway :: "('w, 'j) platform \<Rightarrow> ('w, ref) stmt" where
  "create_Gateway P = (\<lambda>(w, tr). case new_Gateway P w of
       (g, w') \<Rightarrow> (Inr g, (w', tr @ [NewGateway g])))"

text \<open>\<^verbatim>\<open>try { body } finally { gateway.disconnect(); }\<close>\<close>

definition try_finally_disconnect ::
  "('w, 'j) platform \<Rightarrow> ref \<Rightarrow> ('w, 'a) stmt \<Rightarrow> ('w, 'a) stmt" where
  "try_finally_disconnect P g body = (\<lambda>s. case body s of
       (r, (w, tr)) \<Rightarrow>
         (r, (disconnect P g w,
              tr @ [Invoke (GatewayDisconnect g), Resolved (GatewayDisconnect g)])))"

subsection \<open>Module constants (lines 15-20)\<close>

text \<open>\<^verbatim>\<open>x || d\<close> for \<open>x\<close> a string or \<^verbatim>\<open>undefined\<close>: the empty string is falsy too.\<close>

fun or_default :: "string option \<Rightarrow> string \<Rightarrow> string" where
  "or_default None d = d"
| "or_default (Some s) d = (if s = [] then d else s)"

definition channelName :: "process \<Rightarrow> string" where
  "channelName proc = or_default (env proc ''CHANNEL_NAME'') ''mychannel''"

definition chaincodeName :: "process \<Rightarrow> string" where
  "chaincodeName proc = or_default (env proc ''CHAINCODE_NAME'') ''basic''"

definition mspOrg1 :: string where
  "mspOrg1 = ''Org1MSP''"

definition walletPath :: "('w, 'j) platform \<Rightarrow> process \<Rightarrow> string" where
  "walletPath P proc = path_join P (dirname proc) ''wallet''"

definition org1UserId :: string where
  "org1UserId = ''javascriptAppUser''"

subsection \<open>prettyJSONString (lines 22-24)\<close>

definition prettyJSONString :: "('w, 'j) platform \<Rightarrow> string \<Rightarrow> ('w, string) stmt" where
  "prettyJSONString P inputString =
     bnd (ext (JSONParse inputString) (\<lambda>w. (JSON_parse P inputString, w)))
         (\<lambda>v s. (Inr (JSON_stringify P v), s))"

subsection \<open>main (lines 73-177)\<close>

text \<open>
  The Korean word of the progress lines (\<^verbatim>\<open>'\n--> ... 101'\<close>), as its UTF-8 bytes.
\<close>

definition transfer_label :: string where
  "transfer_label =
     [CHR 0xED, CHR 0x8A, CHR 0xB8, CHR 0xEB, CHR 0x9E, CHR 0x9C,
      CHR 0xEC, CHR 0x8A, CHR 0xA4, CHR 0xED, CHR 0x8D, CHR 0xBC]"

definition progress_line :: "string \<Rightarrow> string" where
  "progress_line n = CHR 0x0A # ''--> '' @ transfer_label @ '' '' @ n"

text \<open>The body of the inner \<^verbatim>\<open>try\<close> (lines 98-158).\<close>

definition main_gateway_body ::
  "('w, 'j) platform \<Rightarrow> process \<Rightarrow> ref \<Rightarrow> ref \<Rightarrow> ref \<Rightarrow> ('w, unit) stmt" where
  "main_gateway_body P proc ccp wlt gateway =
   (let opts = \<lparr>wallet = wlt, identity = org1UserId,
                discovery_enabled = True, discovery_asLocalhost = True\<rparr> in
    bnd (ext (GatewayConnect gateway ccp opts) (connect P gateway ccp opts)) (\<lambda>_.
    bnd (ext (GetNetwork gateway (channelName proc))
             (getNetwork P gateway (channelName proc))) (\<lambda>network.
    bnd (ext (GetContract network (chaincodeName proc))
             (getContract P network (chaincodeName proc))) (\<lambda>contract.
    bnd (console_log (CHR 0x0A #
          ''--> Submit Transaction: InitLedger, function creates the initial set of assets on the ledger'')) (\<lambda>_.
    bnd (submit P contract ''InitLedger'' []) (\<lambda>_.
    bnd (console_log ''*** Result: committed'') (\<lambda>_.

    bnd (console_log (progress_line ''101'')) (\<lambda>_.
    bnd (submit P contract ''Transfer''
               [''7cafb40b30e8f7f0c8f57393e2ea63ff58a95907'',
                ''f5c705db130ec0cbda536bfacc8e38425b427862'', ''7500000'']) (\<lambda>result.
    bnd (prettyJSONString P result) (\<lambda>pretty.
    bnd (console_log (''*** Result: '' @ pretty)) (\<lambda>_.

    bnd (console_log (progress_line ''102'')) (\<lambda>_.
    bnd (submit P contract ''Transfer''
               [''1a677a3795f8a24b5dd99f83ea31f87595e25db1'',
                ''18f1b4386f2e19e7dbf169ab2469c8fa8bc02976'', ''1000000'']) (\<lambda>result.
    bnd (prettyJSONString P result) (\<lambda>pretty.
    bnd (console_log (''*** Result: '' @ pretty)) (\<lambda>_.

    bnd (console_log (progress_line ''3'')) (\<lambda>_.
    bnd (submit P contract ''Transfer''
               [''0a8077182848001f47826e249f5d8e821ea263bd'',
                ''1a677a3795f8a24b5dd99f83ea31f87595e25db1'', ''100000'']) (\<lambda>result.
    bnd (prettyJSONString P result) (\<lambda>pretty.
    bnd (console_log (''*** Result: '' @ pretty)) (\<lambda>_.

    bnd (console_log (progress_line ''4'')) (\<lambda>_.
    bnd (submit P contract ''Transfer''
               [''1a677a3795f8a24b5dd99f83ea31f87595e25db1'',
                ''b284bea203a5c7e0fbae062650c067297579106a'', ''129000000'']) (\<lambda>result.
    bnd (prettyJSONString P result) (\<lambda>pretty.
    bnd (console_log (''*** Result: '' @ pretty)) (\<lambda>_.

    bnd (console_log (progress_line ''5'')) (\<lambda>_.
    bnd (submit P contract ''Transfer''
               [''78e15f1699dbb6c8a438e90c02044cfa9b9233f3'',
                ''17732863dbd50ee07039048d05d1a144297492b2'', ''220000000'']) (\<lambda>result.
    bnd (prettyJSONString P result) (\<lambda>pretty.
    console_log (''*** Result: '' @ pretty)))))))))))))))))))))))))))"

text \<open>The body of the outer \<^verbatim>\<open>try\<close> (lines 75-172).\<close>

definition main_try :: "('w, 'j) platform \<Rightarrow> process \<Rightarrow> ('w, unit) stmt" where
  "main_try P proc =
    bnd (ext BuildCCPOrg1 (buildCCPOrg1 P)) (\<lambda>ccp.
    bnd (ext (BuildCAClient ccp ''ca.org1.example.com'')
             (buildCAClient P ccp ''ca.org1.example.com'')) (\<lambda>caClient.
    bnd (ext (BuildWallet (walletPath P proc)) (buildWallet P (walletPath P proc))) (\<lambda>wlt.
    bnd (ext (EnrollAdmin caClient wlt mspOrg1) (enrollAdmin P caClient wlt mspOrg1)) (\<lambda>_.
    bnd (ext (RegisterAndEnrollUser caClient wlt mspOrg1 org1UserId ''org1.department1'')
             (registerAndEnrollUser P caClient wlt mspOrg1 org1UserId ''org1.department1'')) (\<lambda>_.
    bnd (create_Gateway P) (\<lambda>gateway.
    try_finally_disconnect P gateway (main_gateway_body P proc ccp wlt gateway)))))))"

text \<open>
  The whole of \<^verbatim>\<open>main\<close>: the \<^verbatim>\<open>catch\<close> logs the error and calls
  \<^verbatim>\<open>process.exit(1)\<close>; a run that throws nothing ends normally, with exit status 0.
  The result is the exit status, the final world and the trace.
\<close>

definition main :: "('w, 'j) platform \<Rightarrow> process \<Rightarrow> 'w \<Rightarrow> nat \<times> 'w \<times> event list" where
  "main P proc w0 =
     (case main_try P proc (w0, []) of
        (Inr _, (w, tr)) \<Rightarrow> (0, w, tr)
      | (Inl error, (w, tr)) \<Rightarrow>
          (1, w, tr @ [ConsoleError (''******** FAILED to run the application: ''
                                      @ error_toString error),
                       ProcessExit 1]))"

definition exit_status :: "nat \<times> 'w \<times> event list \<Rightarrow> nat" where
  "exit_status r = fst r"

definition trace :: "nat \<times> 'w \<times> event list \<Rightarrow> event list" where
  "trace r = snd (snd r)"

subsection \<open>Observations on a trace\<close>

text \<open>The submitted transactions (function name, arguments), in the order of submission.\<close>

fun submission_of :: "event \<Rightarrow> (string \<times> string list) option" where
  "submission_of (Invoke (SubmitTransaction c f args)) = Some (f, args)"
| "submission_of _ = None"

definition submissions :: "event list \<Rightarrow> (string \<times> string list) list" where
  "submissions tr = List.map_filter submission_of tr"

text \<open>The argument lists of the submitted \<^verbatim>\<open>Transfer\<close> transactions, in order.\<close>

definition transfer_calls :: "event list \<Rightarrow> string list list" where
  "transfer_calls tr = map snd (filter (\<lambda>x. fst x = ''Transfer'') (submissions tr))"

text \<open>
  How each \<^verbatim>\<open>Transfer\<close> submission ended, in order: \<open>True\<close> when the awaited
  promise resolved, \<open>False\<close> when it rejected.
\<close>

fun transfer_outcome_of :: "event \<Rightarrow> bool option" where
  "transfer_outcome_of (Resolved (SubmitTransaction c f args)) =
     (if f = ''Transfer'' then Some True else None)"
| "transfer_outcome_of (Rejected (SubmitTransaction c f args) e) =
     (if f = ''Transfer'' then Some False else None)"
| "transfer_outcome_of _ = None"

definition transfer_outcomes :: "event list \<Rightarrow> bool list" where
  "transfer_outcomes tr = List.map_filter transfer_outcome_of tr"

text \<open>The payloads that the resolved \<^verbatim>\<open>Transfer\<close> submissions returned, in order.\<close>

fun transfer_result_of :: "event \<Rightarrow> string option" where
  "transfer_result_of (Returned (SubmitTransaction c f args) s) =
     (if f = ''Transfer'' then Some s else None)"
| "transfer_result_of _ = None"

definition transfer_results :: "event list \<Rightarrow> string list" where
  "transfer_results tr = List.map_filter transfer_result_of tr"

text \<open>The texts handed to \<^verbatim>\<open>JSON.parse\<close> by \<^verbatim>\<open>prettyJSONString\<close>, in order.\<close>

fun payload_of :: "event \<Rightarrow> string option" where
  "payload_of (Invoke (JSONParse s)) = Some s"
| "payload_of _ = None"

definition payloads :: "event list \<Rightarrow> string list" where
  "payloads tr = List.map_filter payload_of tr"

text \<open>The errors thrown during the run, the console lines and the exit calls.\<close>

fun failure_of :: "event \<Rightarrow> js_error option" where
  "failure_of (Rejected c e) = Some e"
| "failure_of _ = None"

definition failures :: "event list \<Rightarrow> js_error list" where
  "failures tr = List.map_filter failure_of tr"

fun console_error_of :: "event \<Rightarrow> string option" where
  "console_error_of (ConsoleError s) = Some s"
| "console_error_of _ = None"

definition console_errors :: "event list \<Rightarrow> string list" where
  "console_errors tr = List.map_filter console_error_of tr"

fun exit_of :: "event \<Rightarrow> nat option" where
  "exit_of (ProcessExit n) = Some n"
| "exit_of _ = None"

definition exits :: "event list \<Rightarrow> nat list" where
  "exits tr = List.map_filter exit_of tr"

fun is_disconnect :: "event \<Rightarrow> bool" where
  "is_disconnect (Invoke (GatewayDisconnect g)) = True"
| "is_disconnect _ = False"

definition disconnect_count :: "event list \<Rightarrow> nat" where
  "disconnect_count tr = length (filter is_disconnect tr)"

fun is_new_gateway :: "event \<Rightarrow> bool" where
  "is_new_gateway (NewGateway g) = True"
| "is_new_gateway _ = False"

definition gateway_created :: "event list \<Rightarrow> bool" where
  "gateway_created tr = list_ex is_new_gateway tr"

subsection \<open>Weakest preconditions of statements\<close>

text \<open>
  \<open>wp m Q E s\<close>: started in \<open>s\<close>, the statement \<open>m\<close> ends normally in a state
  satisfying \<open>Q\<close> or throws in a state satisfying \<open>E\<close>.
\<close>

definition wp ::
  "('w, 'a) stmt \<Rightarrow> ('a \<Rightarrow> 'w state \<Rightarrow> bool) \<Rightarrow> (js_error \<Rightarrow> 'w state \<Rightarrow> bool) \<Rightarrow> 'w state \<Rightarrow> bool" where
  "wp m Q E s = (case m s of (Inr v, s') \<Rightarrow> Q v s' | (Inl e, s') \<Rightarrow> E e s')"

subsection \<open>A scripted platform for concrete runs\<close>

text \<open>
  The world counts the calls that may throw; call number \<open>k\<close> (from 0) throws, every
  other call succeeds. The transaction submitted as call number \<open>n\<close> returns the
  payload \<open>p n\<close>. \<open>JSON_parse\<close> is a stand-in that rejects the empty text, as
  \<^verbatim>\<open>JSON.parse('')\<close> does, and accepts the other texts used below.
\<close>

definition scripted_call :: "nat \<Rightarrow> 'a \<Rightarrow> nat \<Rightarrow> (js_error + 'a) \<times> nat" where
  "scripted_call k v w =
     (if w = k then Inl (JsError ''Error'' ''rejected'') else Inr v, Suc w)"

definition scripted :: "nat \<Rightarrow> (nat \<Rightarrow> string) \<Rightarrow> (nat, string) platform" where
  "scripted k p =
     \<lparr>path_join = (\<lambda>a b. a @ ''/'' @ b),
      JSON_parse = (\<lambda>s. if s = [] then
           Inl (JsError ''SyntaxError'' ''Unexpected end of JSON input'') else Inr s),
      JSON_stringify = (\<lambda>v. v),
      buildCCPOrg1 = scripted_call k 1,
      buildCAClient = (\<lambda>ccp host. scripted_call k 2),
      buildWallet = (\<lambda>path. scripted_call k 3),
      enrollAdmin = (\<lambda>ca wlt msp. scripted_call k ()),
      registerAndEnrollUser = (\<lambda>ca wlt msp uid aff. scripted_call k ()),
      new_Gateway = (\<lambda>w. (4, w)),
      connect = (\<lambda>g ccp opts. scripted_call k ()),
      getNetwork = (\<lambda>g name. scripted_call k 5),
      getContract = (\<lambda>n name. scripted_call k 6),
      submitTransaction = (\<lambda>c f args w. scripted_call k (p w) w),
      disconnect = (\<lambda>g w. w)\<rparr>"

definition unset_env :: process where
  "unset_env = \<lparr>env = Map.empty, dirname = ''/app''\<rparr>"

definition set_env :: process where
  "set_env = \<lparr>env = [''CHANNEL_NAME'' \<mapsto> ''amlchannel'', ''CHAINCODE_NAME'' \<mapsto> ''aml''],
               dirname = ''/app''\<rparr>"

subsection \<open>The literal transactions and further observations\<close>

text \<open>
  The argument triples (from, to, amount) of lines 130-157, in the order of the source,
  each named after the number in its progress line.
\<close>

definition transfer_101 :: "string list" where
  "transfer_101 = [''7cafb40b30e8f7f0c8f57393e2ea63ff58a95907'',
                   ''f5c705db130ec0cbda536bfacc8e38425b427862'', ''7500000'']"

definition transfer_102 :: "string list" where
  "transfer_102 = [''1a677a3795f8a24b5dd99f83ea31f87595e25db1'',
                   ''18f1b4386f2e19e7dbf169ab2469c8fa8bc02976'', ''1000000'']"

definition transfer_3 :: "string list" where
  "transfer_3 = [''0a8077182848001f47826e249f5d8e821ea263bd'',
                 ''1a677a3795f8a24b5dd99f83ea31f87595e25db1'', ''100000'']"

definition transfer_4 :: "string list" where
  "transfer_4 = [''1a677a3795f8a24b5dd99f83ea31f87595e25db1'',
                 ''b284bea203a5c7e0fbae062650c067297579106a'', ''129000000'']"

definition transfer_5 :: "string list" where
  "transfer_5 = [''78e15f1699dbb6c8a438e90c02044cfa9b9233f3'',
                 ''17732863dbd50ee07039048d05d1a144297492b2'', ''220000000'']"

definition five_transfers :: "string list list" where
  "five_transfers = [transfer_101, transfer_102, transfer_3, transfer_4, transfer_5]"

text \<open>All the submissions of a complete run: InitLedger, then the five transfers.\<close>

definition six_submissions :: "(string \<times> string list) list" where
  "six_submissions = (''InitLedger'', []) # map (Pair ''Transfer'') five_transfers"

text \<open>A run in which every call succeeds and every payload is the JSON text \<^verbatim>\<open>{}\<close>.\<close>

definition all_succeed :: "(nat, string) platform" where
  "all_succeed = scripted 100 (\<lambda>n. ''{}'')"

fun is_init_resolved :: "event \<Rightarrow> bool" where
  "is_init_resolved (Resolved (SubmitTransaction c f args)) =
     (f = ''InitLedger'' \<and> args = [])"
| "is_init_resolved _ = False"

fun is_transfer_invoke :: "event \<Rightarrow> bool" where
  "is_transfer_invoke (Invoke (SubmitTransaction c f args)) = (f = ''Transfer'')"
| "is_transfer_invoke _ = False"

text \<open>A run in which the fifth Transfer returns an empty payload.\<close>

definition empty_fifth_payload :: "(nat, string) platform" where
  "empty_fifth_payload = scripted 100 (\<lambda>n. if n = 13 then [] else ''{}'')"



text \<open>The line written by the \<^verbatim>\<open>catch\<close> block (line 174).\<close>

definition failure_line :: "js_error \<Rightarrow> string" where
  "failure_line e = ''******** FAILED to run the application: '' @ error_toString e"

text \<open>The first console line of the transaction part (line 119).\<close>

definition init_line :: string where
  "init_line = CHR 0x0A #
     ''--> Submit Transaction: InitLedger, function creates the initial set of assets on the ledger''"

text \<open>An event names the channel \<open>ch\<close> and the chaincode \<open>cc\<close> wherever it names any.\<close>

fun uses_names :: "string \<Rightarrow> string \<Rightarrow> event \<Rightarrow> bool" where
  "uses_names ch cc (Invoke (GetNetwork g n)) = (n = ch)"
| "uses_names ch cc (Invoke (GetContract net n)) = (n = cc)"
| "uses_names ch cc _ = True"

text \<open>Console lines and committed transactions: what a user of the driver sees.\<close>

fun is_log_or_commit :: "event \<Rightarrow> bool" where
  "is_log_or_commit (ConsoleLog s) = True"
| "is_log_or_commit (Resolved (SubmitTransaction c f args)) = True"
| "is_log_or_commit _ = False"

text \<open>
  Enrollment into a wallet, and a scan of the trace: whenever the gateway connects, the
  admin and the connecting identity have been enrolled into the wallet it is given.
\<close>

fun enrolled_admin_into :: "ref \<Rightarrow> event \<Rightarrow> bool" where
  "enrolled_admin_into wlt (Resolved (EnrollAdmin ca w m)) = (w = wlt \<and> m = ''Org1MSP'')"
| "enrolled_admin_into wlt _ = False"

fun enrolled_user_into :: "ref \<Rightarrow> string \<Rightarrow> event \<Rightarrow> bool" where
  "enrolled_user_into wlt uid (Resolved (RegisterAndEnrollUser ca w m u aff)) =
     (w = wlt \<and> m = ''Org1MSP'' \<and> u = uid \<and> aff = ''org1.department1'')"
| "enrolled_user_into wlt uid _ = False"

fun connect_ok :: "event list \<Rightarrow> event \<Rightarrow> bool" where
  "connect_ok seen (Invoke (GatewayConnect g ccp opts)) =
     (identity opts = ''javascriptAppUser'' \<and>
      list_ex (enrolled_admin_into (wallet opts)) seen \<and>
      list_ex (enrolled_user_into (wallet opts) (identity opts)) seen)"
| "connect_ok seen _ = True"

fun connects_as_enrolled :: "event list \<Rightarrow> event list \<Rightarrow> bool" where
  "connects_as_enrolled seen [] = True"
| "connects_as_enrolled seen (e # tr) =
     (connect_ok seen e \<and> connects_as_enrolled (seen @ [e]) tr)"

section \<open>Reasoning about runs\<close>

lemma wp_bnd: "wp m (\<lambda>v. wp (f v) Q E) E s \<Longrightarrow> wp (bnd m f) Q E s"
  by (auto simp: wp_def bnd_def split: prod.splits sum.splits)

text \<open>Whatever the platform answers, one of the two outcomes is recorded.\<close>

lemma wp_ext:
  "(\<And>e w'. E e (w', tr @ [Invoke c, Rejected c e])) \<Longrightarrow>
   (\<And>v w'. Q v (w', tr @ [Invoke c, Resolved c])) \<Longrightarrow> wp (ext c f) Q E (w, tr)"
  by (auto simp: wp_def ext_def split: prod.splits sum.splits)

lemma wp_submit:
  "(\<And>e w'. E e (w', tr @ [Invoke (SubmitTransaction c f args),
                            Rejected (SubmitTransaction c f args) e])) \<Longrightarrow>
   (\<And>v w'. Q v (w', tr @ [Invoke (SubmitTransaction c f args),
                            Resolved (SubmitTransaction c f args),
                            Returned (SubmitTransaction c f args) v])) \<Longrightarrow>
   wp (submit P c f args) Q E (w, tr)"
  by (auto simp: wp_def submit_def split: prod.splits sum.splits)

lemma wp_console_log: "Q () (w, tr @ [ConsoleLog s]) \<Longrightarrow> wp (console_log s) Q E (w, tr)"
  by (simp add: wp_def console_log_def)

lemma wp_create_Gateway:
  "(\<And>g w'. Q g (w', tr @ [NewGateway g])) \<Longrightarrow> wp (create_Gateway P) Q E (w, tr)"
  by (auto simp: wp_def create_Gateway_def split: prod.splits)

lemma wp_try_finally_disconnect:
  "wp body
      (\<lambda>v (w, tr). Q v (disconnect P g w,
          tr @ [Invoke (GatewayDisconnect g), Resolved (GatewayDisconnect g)]))
      (\<lambda>e (w, tr). E e (disconnect P g w,
          tr @ [Invoke (GatewayDisconnect g), Resolved (GatewayDisconnect g)])) s
   \<Longrightarrow> wp (try_finally_disconnect P g body) Q E s"
  by (auto simp: wp_def try_finally_disconnect_def split: prod.splits sum.splits)

text \<open>\<^verbatim>\<open>prettyJSONString\<close> throws exactly when \<open>JSON_parse\<close> does.\<close>

lemma wp_prettyJSONString:
  "(\<And>e. JSON_parse P x = Inl e \<Longrightarrow>
        E e (w, tr @ [Invoke (JSONParse x), Rejected (JSONParse x) e])) \<Longrightarrow>
   (\<And>v. JSON_parse P x = Inr v \<Longrightarrow>
        Q (JSON_stringify P v) (w, tr @ [Invoke (JSONParse x), Resolved (JSONParse x)])) \<Longrightarrow>
   wp (prettyJSONString P x) Q E (w, tr)"
  by (auto simp: wp_def prettyJSONString_def bnd_def ext_def split: prod.splits sum.splits)

lemma main_wp:
  "wp (main_try P proc) (\<lambda>_ (w, tr). R (0, w, tr))
      (\<lambda>e (w, tr). R (1, w, tr @
          [ConsoleError (''******** FAILED to run the application: '' @ error_toString e),
           ProcessExit 1]))
      (w0, []) \<Longrightarrow> R (main P proc w0)"
  by (auto simp: wp_def main_def split: prod.splits sum.splits)

lemmas wp_rules = wp_bnd wp_ext wp_submit wp_console_log wp_create_Gateway wp_try_finally_disconnect
  wp_prettyJSONString

lemmas observation_defs = submissions_def transfer_calls_def transfer_outcomes_def
  transfer_results_def payloads_def failures_def console_errors_def exits_def disconnect_count_def
  gateway_created_def trace_def exit_status_def

lemmas transfer_defs = transfer_101_def transfer_102_def transfer_3_def transfer_4_def
  transfer_5_def

text \<open>Reading the literals of \<open>main\<close> as the constants that name them.\<close>

lemmas fold_literals = transfer_101_def [symmetric] transfer_102_def [symmetric]
  transfer_3_def [symmetric] transfer_4_def [symmetric] transfer_5_def [symmetric]
  init_line_def [symmetric]

lemmas main_gateway_body_folded = main_gateway_body_def [unfolded Let_def fold_literals]

text \<open>The equations that evaluate a run on the scripted platform.\<close>

lemmas scripted_defs = main_def main_try_def main_gateway_body_folded prettyJSONString_def
  bnd_def ext_def submit_def console_log_def create_Gateway_def
  try_finally_disconnect_def scripted_def scripted_call_def unset_env_def set_env_def channelName_def
  chaincodeName_def walletPath_def

lemma transfer_arity:
  "length transfer_101 = 3" "length transfer_102 = 3" "length transfer_3 = 3"
  "length transfer_4 = 3" "length transfer_5 = 3"
  by (simp_all add: transfer_defs)

lemma all_succeed_exit: "exit_status (main all_succeed unset_env 0) = 0"
  by (simp add: all_succeed_def scripted_defs observation_defs)

section \<open>The sequence of Transfer submissions\<close>

lemma submissions_shape:
  "prefix (submissions (trace (main P proc w))) six_submissions \<and>
   (exit_status (main P proc w) = 0 \<longrightarrow>
      submissions (trace (main P proc w)) = six_submissions)"
  apply (rule main_wp)
  unfolding main_try_def main_gateway_body_folded
  apply (intro wp_rules)
  apply (simp_all add: observation_defs six_submissions_def five_transfers_def)
  done

lemma transfer_calls_six: "map snd (filter (\<lambda>x. fst x = ''Transfer'') six_submissions) = five_transfers"
  by (simp add: six_submissions_def five_transfers_def)

text \<open>
  Claim C1, as amended. In every run the Transfer transactions submitted are an initial
  segment of the five literal triples, in the order of the source; a run that ends with
  exit status 0 has submitted exactly the five. The triple
  (7cafb40b..., f5c705db..., 7500000) is the first of the five Transfer calls, not the
  second: it is call number 2 only when the InitLedger submission is counted as number 1.
\<close>

theorem transfer_sequence:
  "prefix (transfer_calls (trace (main P proc w))) five_transfers \<and>
   (exit_status (main P proc w) = 0 \<longrightarrow>
      transfer_calls (trace (main P proc w)) = five_transfers \<and>
      length (transfer_calls (trace (main P proc w))) = 5 \<and>
      transfer_calls (trace (main P proc w)) ! 0 =
        [''7cafb40b30e8f7f0c8f57393e2ea63ff58a95907'',
         ''f5c705db130ec0cbda536bfacc8e38425b427862'', ''7500000''] \<and>
      submissions (trace (main P proc w)) ! 1 =
        (''Transfer'', [''7cafb40b30e8f7f0c8f57393e2ea63ff58a95907'',
                        ''f5c705db130ec0cbda536bfacc8e38425b427862'', ''7500000'']))"
proof -
  let ?tr = "trace (main P proc w)"
  note shape = submissions_shape [of P proc w]
  from shape have "prefix (map snd (filter (\<lambda>x. fst x = ''Transfer'') (submissions ?tr)))
                          (map snd (filter (\<lambda>x. fst x = ''Transfer'') six_submissions))"
    by (intro map_mono_prefix filter_mono_prefix) simp
  then have pre: "prefix (transfer_calls ?tr) five_transfers"
    by (simp add: transfer_calls_def transfer_calls_six)
  have full: "transfer_calls ?tr = five_transfers \<and> submissions ?tr = six_submissions"
    if "exit_status (main P proc w) = 0"
    using that shape by (simp add: transfer_calls_def transfer_calls_six)
  from pre full show ?thesis
    by (auto simp: five_transfers_def six_submissions_def transfer_defs)
qed

theorem transfer_sequence_witness:
  "exit_status (main all_succeed unset_env 0) = 0 \<and>
   transfer_calls (trace (main all_succeed unset_env 0)) = five_transfers"
  using transfer_sequence [of all_succeed unset_env 0] all_succeed_exit by simp

text \<open>
  The claim as first stated fails: in the run in which everything succeeds, the second
  of the five Transfer calls is not the triple (7cafb40b..., f5c705db..., 7500000).
\<close>

theorem second_transfer_counterexample:
  "exit_status (main all_succeed unset_env 0) = 0 \<and>
   length (transfer_calls (trace (main all_succeed unset_env 0))) = 5 \<and>
   transfer_calls (trace (main all_succeed unset_env 0)) ! (2 - 1) \<noteq>
     [''7cafb40b30e8f7f0c8f57393e2ea63ff58a95907'',
      ''f5c705db130ec0cbda536bfacc8e38425b427862'', ''7500000'']"
  by (simp add: all_succeed_def scripted_defs observation_defs transfer_defs)

section \<open>A rejected Transfer ends the run\<close>

lemma transfer_outcomes_shape:
  "length (transfer_calls (trace (main P proc w))) =
     length (transfer_outcomes (trace (main P proc w))) \<and>
   list_all (\<lambda>b. b) (butlast (transfer_outcomes (trace (main P proc w)))) \<and>
   (\<not> list_all (\<lambda>b. b) (transfer_outcomes (trace (main P proc w))) \<longrightarrow>
      exit_status (main P proc w) = 1)"
  apply (rule main_wp)
  unfolding main_try_def main_gateway_body_folded
  apply (intro wp_rules)
  apply (simp_all add: observation_defs)
  done

lemma false_only_last:
  assumes "list_all (\<lambda>b. b) (butlast bs)" and "i < length bs" and "\<not> bs ! i"
  shows "Suc i = length bs"
proof (rule ccontr)
  assume "Suc i \<noteq> length bs"
  with assms(2) have short: "i < length (butlast bs)" by simp
  with assms(1) have "butlast bs ! i" by (simp add: list_all_length)
  with short have "bs ! i" by (simp add: nth_butlast)
  with assms(3) show False by simp
qed

text \<open>
  Claim C2. For every run and every N from 1 to 5: if the N-th Transfer submission
  rejects, then exactly N Transfer calls were issued in that run (none with an index
  greater than N), and the process ends with exit status 1.
\<close>

theorem rejected_transfer_stops_run:
  assumes "N \<in> {1..5}"
    and "N \<le> length (transfer_outcomes (trace (main P proc w)))"
    and "\<not> transfer_outcomes (trace (main P proc w)) ! (N - 1)"
  shows "length (transfer_calls (trace (main P proc w))) = N \<and>
         exit_status (main P proc w) = 1"
proof -
  let ?outs = "transfer_outcomes (trace (main P proc w))"
  note shape = transfer_outcomes_shape [of P proc w]
  from assms(1,2) have i: "N - 1 < length ?outs" by auto
  from shape i assms(3) have "Suc (N - 1) = length ?outs"
    by (intro false_only_last) simp_all
  with assms(1) have len: "length ?outs = N" by auto
  from i assms(3) have "\<not> list_all (\<lambda>b. b) ?outs"
    by (auto simp: list_all_length)
  with shape len show ?thesis by simp
qed

theorem rejected_transfer_stops_run_witness:
  "(2::nat) \<in> {1..5} \<and>
   \<not> transfer_outcomes (trace (main (scripted 10 (\<lambda>n. ''{}'')) unset_env 0)) ! (2 - 1) \<and>
   length (transfer_calls (trace (main (scripted 10 (\<lambda>n. ''{}'')) unset_env 0))) = 2 \<and>
   exit_status (main (scripted 10 (\<lambda>n. ''{}'')) unset_env 0) = 1"
proof -
  have h1: "(2::nat) \<in> {1..5}" by simp
  have h2: "2 \<le> length (transfer_outcomes
               (trace (main (scripted 10 (\<lambda>n. ''{}'')) unset_env 0)))"
    by (simp add: scripted_defs observation_defs)
  have h3: "\<not> transfer_outcomes
               (trace (main (scripted 10 (\<lambda>n. ''{}'')) unset_env 0)) ! (2 - 1)"
    by (simp add: scripted_defs observation_defs)
  from rejected_transfer_stops_run [OF h1 h2 h3] h1 h3 show ?thesis by simp
qed

section \<open>InitLedger comes first\<close>

lemma no_transfer_until_init:
  "list_all (\<lambda>e. \<not> is_transfer_invoke e)
     (takeWhile (\<lambda>e. \<not> is_init_resolved e) (trace (main P proc w)))"
  apply (rule main_wp)
  unfolding main_try_def main_gateway_body_folded
  apply (intro wp_rules)
  apply (simp_all add: observation_defs)
  done

lemma takeWhile_reaches:
  assumes "list_all (\<lambda>e. \<not> p e) (takeWhile (\<lambda>e. \<not> q e) xs)"
    and "i < length xs" and "p (xs ! i)" and "\<And>e. p e \<Longrightarrow> \<not> q e"
  shows "\<exists>j<i. q (xs ! j)"
proof (rule ccontr)
  assume no: "\<not> (\<exists>j<i. q (xs ! j))"
  from assms(3,4) have "\<not> q (xs ! i)" by simp
  with no have "\<And>j. j < Suc i \<Longrightarrow> \<not> q (xs ! j)" by (auto simp: less_Suc_eq)
  with assms(2) have "Suc i \<le> length (takeWhile (\<lambda>e. \<not> q e) xs)"
    by (intro length_takeWhile_less_P_nth) auto
  then have lt: "i < length (takeWhile (\<lambda>e. \<not> q e) xs)" by simp
  then have "takeWhile (\<lambda>e. \<not> q e) xs ! i = xs ! i" by (rule takeWhile_nth)
  with assms(1) lt have "\<not> p (xs ! i)" by (auto simp: list_all_length)
  with assms(3) show False by simp
qed

lemma is_init_resolved_iff:
  "is_init_resolved e \<longleftrightarrow> (\<exists>c. e = Resolved (SubmitTransaction c ''InitLedger'' []))"
  by (cases e rule: is_init_resolved.cases) auto

text \<open>
  Claim C3. In every run, wherever a Transfer submission is issued, the InitLedger
  submission has resolved at an earlier position of the trace: no Transfer call precedes
  the completion of InitLedger.
\<close>

theorem init_before_transfers:
  assumes "i < length (trace (main P proc w))"
    and "trace (main P proc w) ! i = Invoke (SubmitTransaction c ''Transfer'' args)"
  shows "\<exists>j<i. \<exists>c'. trace (main P proc w) ! j =
           Resolved (SubmitTransaction c' ''InitLedger'' [])"
proof -
  let ?tr = "trace (main P proc w)"
  from assms(2) have p: "is_transfer_invoke (?tr ! i)" by simp
  have disj: "\<And>e. is_transfer_invoke e \<Longrightarrow> \<not> is_init_resolved e"
    by (auto simp: is_init_resolved_iff)
  from takeWhile_reaches [OF no_transfer_until_init assms(1) p disj]
  show ?thesis by (simp add: is_init_resolved_iff)
qed

theorem init_before_transfers_witness:
  "23 < length (trace (main all_succeed unset_env 0)) \<and>
   trace (main all_succeed unset_env 0) ! 23 =
     Invoke (SubmitTransaction 6 ''Transfer'' (five_transfers ! 0)) \<and>
   (\<exists>j<23. \<exists>c'. trace (main all_succeed unset_env 0) ! j =
      Resolved (SubmitTransaction c' ''InitLedger'' []))"
proof -
  have h1: "23 < length (trace (main all_succeed unset_env 0))"
    by (simp add: all_succeed_def scripted_defs observation_defs)
  have h2: "trace (main all_succeed unset_env 0) ! 23 =
              Invoke (SubmitTransaction 6 ''Transfer'' (five_transfers ! 0))"
    by (simp add: all_succeed_def scripted_defs observation_defs five_transfers_def
        transfer_defs)
  from init_before_transfers [OF h1 h2] h1 h2 show ?thesis by simp
qed

section \<open>The submitted functions and their arities\<close>

lemma submissions_arity:
  "list_all (\<lambda>(f, args). (f = ''InitLedger'' \<and> args = []) \<or>
                          (f = ''Transfer'' \<and> length args = 3))
     (submissions (trace (main P proc w)))"
  apply (rule main_wp)
  unfolding main_try_def main_gateway_body_folded
  apply (intro wp_rules)
  apply (simp_all add: observation_defs transfer_arity)
  done

text \<open>
  Claim C8. Every transaction submitted in a run is either InitLedger with no argument
  or Transfer with exactly three (string) arguments.
\<close>

theorem submitted_functions:
  "\<forall>(f, args) \<in> set (submissions (trace (main P proc w))).
     (f = ''InitLedger'' \<and> args = []) \<or> (f = ''Transfer'' \<and> length args = 3)"
  using submissions_arity [of P proc w] by (simp add: list_all_iff)

theorem submitted_functions_witness:
  "submissions (trace (main all_succeed unset_env 0)) ! 5 \<in>
     set (submissions (trace (main all_succeed unset_env 0))) \<and>
   fst (submissions (trace (main all_succeed unset_env 0)) ! 5) = ''Transfer'' \<and>
   length (snd (submissions (trace (main all_succeed unset_env 0)) ! 5)) = 3"
proof -
  let ?subs = "submissions (trace (main all_succeed unset_env 0))"
  have len: "length ?subs = 6"
    by (simp add: all_succeed_def scripted_defs observation_defs)
  then have mem: "?subs ! 5 \<in> set ?subs" by simp
  have name: "fst (?subs ! 5) = ''Transfer''"
    by (simp add: all_succeed_def scripted_defs observation_defs)
  from submitted_functions [of all_succeed unset_env 0] mem
  have "case ?subs ! 5 of (f, args) \<Rightarrow>
          (f = ''InitLedger'' \<and> args = []) \<or> (f = ''Transfer'' \<and> length args = 3)"
    by (rule bspec)
  with name have "length (snd (?subs ! 5)) = 3"
    by (simp add: case_prod_beta)
  with mem name show ?thesis by simp
qed

section \<open>Releasing the gateway\<close>





section \<open>The top-level handler\<close>

lemma failure_shape:
  "(case failures (trace (main P proc w)) of
      [] \<Rightarrow> exit_status (main P proc w) = 0 \<and> console_errors (trace (main P proc w)) = [] \<and>
            exits (trace (main P proc w)) = []
    | [e] \<Rightarrow> exit_status (main P proc w) = 1 \<and>
             console_errors (trace (main P proc w)) = [failure_line e] \<and>
             exits (trace (main P proc w)) = [1]
    | _ \<Rightarrow> False)"
  apply (rule main_wp)
  unfolding main_try_def main_gateway_body_folded
  apply (intro wp_rules)
  apply (simp_all add: observation_defs failure_line_def)
  done

lemma message_in_rendering: "\<exists>p. error_toString e = p @ err_message e"
proof (cases e)
  case (JsError n m)
  show ?thesis
  proof (cases "n = []")
    case True
    with JsError show ?thesis by simp
  next
    case False
    show ?thesis
    proof (cases "m = []")
      case True
      with JsError False show ?thesis by simp
    next
      case m: False
      with JsError False have "error_toString e = (n @ '': '') @ err_message e" by simp
      then show ?thesis by blast
    qed
  qed
qed

text \<open>
  Claim C5. A run in which nothing throws ends with exit status 0, writes no error line
  and never calls \<^verbatim>\<open>process.exit\<close>. If any call throws an error \<open>e\<close> (building the
  connection profile, the CA client or the wallet, an enrollment, the gateway connect,
  resolving the network or the contract, a submission, or parsing a result), then \<open>e\<close>
  is the only error of the run, exactly one error line is written, it is the prefix of
  line 174 followed by the rendering of \<open>e\<close>, which ends in the message of \<open>e\<close>, and the
  process exits once, with status 1.
\<close>

theorem failures_caught_once:
  "(failures (trace (main P proc w)) = [] \<longrightarrow>
      exit_status (main P proc w) = 0 \<and> console_errors (trace (main P proc w)) = [] \<and>
      exits (trace (main P proc w)) = []) \<and>
   (\<forall>e \<in> set (failures (trace (main P proc w))).
      failures (trace (main P proc w)) = [e] \<and>
      console_errors (trace (main P proc w)) =
        [''******** FAILED to run the application: '' @ error_toString e] \<and>
      (\<exists>p. error_toString e = p @ err_message e) \<and>
      exits (trace (main P proc w)) = [1] \<and>
      exit_status (main P proc w) = 1)"
  using failure_shape [of P proc w] message_in_rendering
  by (auto simp: failure_line_def split: list.splits)

theorem failures_caught_once_witness:
  "JsError ''Error'' ''rejected'' \<in>
     set (failures (trace (main (scripted 3 (\<lambda>n. ''{}'')) unset_env 0))) \<and>
   console_errors (trace (main (scripted 3 (\<lambda>n. ''{}'')) unset_env 0)) =
     [''******** FAILED to run the application: Error: rejected''] \<and>
   exit_status (main (scripted 3 (\<lambda>n. ''{}'')) unset_env 0) = 1 \<and>
   failures (trace (main all_succeed unset_env 0)) = [] \<and>
   exit_status (main all_succeed unset_env 0) = 0"
proof -
  have h1: "JsError ''Error'' ''rejected'' \<in>
              set (failures (trace (main (scripted 3 (\<lambda>n. ''{}'')) unset_env 0)))"
    by (simp add: scripted_defs observation_defs)
  have h2: "failures (trace (main all_succeed unset_env 0)) = []"
    by (simp add: all_succeed_def scripted_defs observation_defs)
  from failures_caught_once [of "scripted 3 (\<lambda>n. ''{}'')" unset_env 0] h1
  have a: "console_errors (trace (main (scripted 3 (\<lambda>n. ''{}'')) unset_env 0)) =
             [''******** FAILED to run the application: '' @
              error_toString (JsError ''Error'' ''rejected'')] \<and>
           exit_status (main (scripted 3 (\<lambda>n. ''{}'')) unset_env 0) = 1"
    by blast
  from failures_caught_once [of all_succeed unset_env 0] h2
  have b: "exit_status (main all_succeed unset_env 0) = 0" by blast
  from h1 h2 a b show ?thesis by simp
qed

section \<open>Channel and chaincode names\<close>

lemma names_shape:
  "list_all (uses_names (channelName proc) (chaincodeName proc)) (trace (main P proc w))"
  apply (rule main_wp)
  unfolding main_try_def main_gateway_body_folded
  apply (intro wp_rules)
  apply (simp_all add: observation_defs)
  done

text \<open>
  Claim C6. The name given to \<^verbatim>\<open>gateway.getNetwork\<close> is \<open>channelName\<close> and the name
  given to \<^verbatim>\<open>network.getContract\<close> is \<open>chaincodeName\<close>. When CHANNEL_NAME is unset
  the former is "mychannel", when CHAINCODE_NAME is unset the latter is "basic", and a
  variable set to a non-empty string gives its value.
\<close>

theorem channel_and_chaincode_names:
  "(Invoke (GetNetwork g n) \<in> set (trace (main P proc w)) \<longrightarrow> n = channelName proc) \<and>
   (Invoke (GetContract net m) \<in> set (trace (main P proc w)) \<longrightarrow> m = chaincodeName proc) \<and>
   (env proc ''CHANNEL_NAME'' = None \<longrightarrow> channelName proc = ''mychannel'') \<and>
   (env proc ''CHAINCODE_NAME'' = None \<longrightarrow> chaincodeName proc = ''basic'') \<and>
   (env proc ''CHANNEL_NAME'' = Some s \<and> s \<noteq> [] \<longrightarrow> channelName proc = s) \<and>
   (env proc ''CHAINCODE_NAME'' = Some s' \<and> s' \<noteq> [] \<longrightarrow> chaincodeName proc = s')"
proof -
  note shape = names_shape [of proc P w]
  have net: "n = channelName proc" if "Invoke (GetNetwork g n) \<in> set (trace (main P proc w))"
    using shape that by (auto simp: list_all_iff)
  have con: "m = chaincodeName proc" if "Invoke (GetContract net m) \<in> set (trace (main P proc w))"
    using shape that by (auto simp: list_all_iff)
  from net con show ?thesis by (simp add: channelName_def chaincodeName_def)
qed

theorem channel_and_chaincode_names_witness:
  "env unset_env ''CHANNEL_NAME'' = None \<and> env unset_env ''CHAINCODE_NAME'' = None \<and>
   Invoke (GetNetwork 4 ''mychannel'') \<in> set (trace (main all_succeed unset_env 0)) \<and>
   Invoke (GetContract 5 ''basic'') \<in> set (trace (main all_succeed unset_env 0)) \<and>
   env set_env ''CHANNEL_NAME'' = Some ''amlchannel'' \<and> env set_env ''CHAINCODE_NAME'' = Some ''aml'' \<and>
   Invoke (GetNetwork 4 ''amlchannel'') \<in> set (trace (main all_succeed set_env 0)) \<and>
   Invoke (GetContract 5 ''aml'') \<in> set (trace (main all_succeed set_env 0)) \<and>
   channelName unset_env = ''mychannel'' \<and> chaincodeName unset_env = ''basic'' \<and>
   channelName set_env = ''amlchannel'' \<and> chaincodeName set_env = ''aml''"
proof -
  have u: "env unset_env ''CHANNEL_NAME'' = None" "env unset_env ''CHAINCODE_NAME'' = None"
    by (simp_all add: unset_env_def)
  have s: "env set_env ''CHANNEL_NAME'' = Some ''amlchannel''" "env set_env ''CHAINCODE_NAME'' = Some ''aml''"
    by (simp_all add: set_env_def)
  have ev: "Invoke (GetNetwork 4 (channelName unset_env)) \<in> set (trace (main all_succeed unset_env 0))"
    "Invoke (GetContract 5 (chaincodeName unset_env)) \<in> set (trace (main all_succeed unset_env 0))"
    "Invoke (GetNetwork 4 (channelName set_env)) \<in> set (trace (main all_succeed set_env 0))"
    "Invoke (GetContract 5 (chaincodeName set_env)) \<in> set (trace (main all_succeed set_env 0))"
    by (simp_all add: all_succeed_def scripted_defs observation_defs)
  from channel_and_chaincode_names [of _ _ all_succeed unset_env 0 _ _ "[]" "[]"] u
  have a: "channelName unset_env = ''mychannel''" "chaincodeName unset_env = ''basic''" by simp_all
  from channel_and_chaincode_names [of _ _ all_succeed set_env 0 _ _ "''amlchannel''" "''aml''"] s
  have b: "channelName set_env = ''amlchannel''" "chaincodeName set_env = ''aml''" by simp_all
  from u s ev a b show ?thesis by simp
qed

section \<open>The output of a successful run\<close>

lemma success_shape:
  "failures (trace (main P proc w)) = [] \<longrightarrow>
     exit_status (main P proc w) = 0 \<and>
     (\<exists>c p1 p2 p3 p4 p5. filter is_log_or_commit (trace (main P proc w)) =
        [ConsoleLog init_line,
         Resolved (SubmitTransaction c ''InitLedger'' []),
         ConsoleLog ''*** Result: committed'',
         ConsoleLog (progress_line ''101''),
         Resolved (SubmitTransaction c ''Transfer'' (five_transfers ! 0)),
         ConsoleLog (''*** Result: '' @ p1),
         ConsoleLog (progress_line ''102''),
         Resolved (SubmitTransaction c ''Transfer'' (five_transfers ! 1)),
         ConsoleLog (''*** Result: '' @ p2),
         ConsoleLog (progress_line ''3''),
         Resolved (SubmitTransaction c ''Transfer'' (five_transfers ! 2)),
         ConsoleLog (''*** Result: '' @ p3),
         ConsoleLog (progress_line ''4''),
         Resolved (SubmitTransaction c ''Transfer'' (five_transfers ! 3)),
         ConsoleLog (''*** Result: '' @ p4),
         ConsoleLog (progress_line ''5''),
         Resolved (SubmitTransaction c ''Transfer'' (five_transfers ! 4)),
         ConsoleLog (''*** Result: '' @ p5)])"
  apply (rule main_wp)
  unfolding main_try_def main_gateway_body_folded
  apply (intro wp_rules)
  apply (simp_all add: observation_defs five_transfers_def)
  done

text \<open>
  Claim C7. In a run in which nothing throws, the process ends normally (exit status 0),
  and the console lines and committed transactions are, in this order: the InitLedger
  line, InitLedger committed, its confirmation line; then for each of the five transfers
  its progress line, the transfer committed, and a confirmation line
  \<^verbatim>\<open>*** Result: ...\<close>. So every submitted transaction is followed by a confirmation
  line of its own.
\<close>

theorem successful_run_confirms_each:
  assumes "failures (trace (main P proc w)) = []"
  shows "exit_status (main P proc w) = 0 \<and>
     (\<exists>c p1 p2 p3 p4 p5. filter is_log_or_commit (trace (main P proc w)) =
        [ConsoleLog init_line,
         Resolved (SubmitTransaction c ''InitLedger'' []),
         ConsoleLog ''*** Result: committed'',
         ConsoleLog (progress_line ''101''),
         Resolved (SubmitTransaction c ''Transfer'' (five_transfers ! 0)),
         ConsoleLog (''*** Result: '' @ p1),
         ConsoleLog (progress_line ''102''),
         Resolved (SubmitTransaction c ''Transfer'' (five_transfers ! 1)),
         ConsoleLog (''*** Result: '' @ p2),
         ConsoleLog (progress_line ''3''),
         Resolved (SubmitTransaction c ''Transfer'' (five_transfers ! 2)),
         ConsoleLog (''*** Result: '' @ p3),
         ConsoleLog (progress_line ''4''),
         Resolved (SubmitTransaction c ''Transfer'' (five_transfers ! 3)),
         ConsoleLog (''*** Result: '' @ p4),
         ConsoleLog (progress_line ''5''),
         Resolved (SubmitTransaction c ''Transfer'' (five_transfers ! 4)),
         ConsoleLog (''*** Result: '' @ p5)])"
  using success_shape [of P proc w] assms by blast

theorem successful_run_confirms_each_witness:
  "failures (trace (main all_succeed unset_env 0)) = [] \<and>
   exit_status (main all_succeed unset_env 0) = 0 \<and>
   length (filter is_log_or_commit (trace (main all_succeed unset_env 0))) = 18"
proof -
  have h: "failures (trace (main all_succeed unset_env 0)) = []"
    by (simp add: all_succeed_def scripted_defs observation_defs)
  from successful_run_confirms_each [OF h] h show ?thesis by auto
qed

section \<open>A result that is not JSON\<close>

lemma parse_shape:
  "payloads (trace (main P proc w)) = transfer_results (trace (main P proc w)) \<and>
   list_all (\<lambda>s. \<exists>v. JSON_parse P s = Inr v) (butlast (payloads (trace (main P proc w)))) \<and>
   list_all (\<lambda>b. b) (take (length (payloads (trace (main P proc w))))
                        (transfer_outcomes (trace (main P proc w)))) \<and>
   length (payloads (trace (main P proc w))) \<le> length (transfer_outcomes (trace (main P proc w))) \<and>
   (\<forall>e. payloads (trace (main P proc w)) \<noteq> [] \<and>
        JSON_parse P (last (payloads (trace (main P proc w)))) = Inl e \<longrightarrow>
        length (transfer_calls (trace (main P proc w))) = length (payloads (trace (main P proc w))) \<and>
        exit_status (main P proc w) = 1 \<and>
        failures (trace (main P proc w)) = [e] \<and>
        console_errors (trace (main P proc w)) = [failure_line e] \<and>
        Rejected (JSONParse (last (payloads (trace (main P proc w))))) e
          \<in> set (trace (main P proc w)))"
  apply (rule main_wp)
  unfolding main_try_def main_gateway_body_folded
  apply (intro wp_rules)
  apply (simp_all add: observation_defs failure_line_def)
  done

text \<open>
  Claim C9. For every N from 1 to 5: if the N-th Transfer submission resolved and
  \<^verbatim>\<open>JSON.parse\<close> throws \<open>e\<close> on the payload it returned, then
  \<^verbatim>\<open>prettyJSONString\<close> is called on that payload and throws \<open>e\<close>, no further Transfer
  is issued, the error line for \<open>e\<close> is written and the process exits with status 1.
  With N = 5 all six submissions have succeeded and the exit status is 1 all the same.
\<close>

theorem unparsable_result_stops_run:
  assumes "N \<in> {1..5}"
    and "N \<le> length (transfer_results (trace (main P proc w)))"
    and "JSON_parse P (transfer_results (trace (main P proc w)) ! (N - 1)) = Inl e"
  shows "transfer_outcomes (trace (main P proc w)) ! (N - 1) \<and>
         Rejected (JSONParse (transfer_results (trace (main P proc w)) ! (N - 1))) e
           \<in> set (trace (main P proc w)) \<and>
         length (transfer_calls (trace (main P proc w))) = N \<and>
         failures (trace (main P proc w)) = [e] \<and>
         console_errors (trace (main P proc w)) =
           [''******** FAILED to run the application: '' @ error_toString e] \<and>
         exit_status (main P proc w) = 1"
proof -
  let ?tr = "trace (main P proc w)"
  let ?rs = "transfer_results ?tr"
  note shape = parse_shape [of P proc w]
  note same = shape [THEN conjunct1]
  note parsed = shape [THEN conjunct2, THEN conjunct1, unfolded same]
  note resolved = shape [THEN conjunct2, THEN conjunct2, THEN conjunct1, unfolded same]
  note enough = shape [THEN conjunct2, THEN conjunct2, THEN conjunct2, THEN conjunct1,
      unfolded same]
  note thrown = shape [THEN conjunct2, THEN conjunct2, THEN conjunct2, THEN conjunct2,
      unfolded same]
  from assms(1,2) have i: "N - 1 < length ?rs" by auto
  have "Suc (N - 1) = length ?rs"
  proof (rule ccontr)
    assume "Suc (N - 1) \<noteq> length ?rs"
    with i have short: "N - 1 < length (butlast ?rs)" by simp
    with parsed have "\<exists>v. JSON_parse P (butlast ?rs ! (N - 1)) = Inr v"
      by (simp add: list_all_length)
    with short have "\<exists>v. JSON_parse P (?rs ! (N - 1)) = Inr v"
      by (simp add: nth_butlast)
    with assms(3) show False by simp
  qed
  with assms(1) have len: "length ?rs = N" by auto
  from i have ne: "?rs \<noteq> []" by auto
  with len have lastp: "last ?rs = ?rs ! (N - 1)" by (simp add: last_conv_nth)
  from thrown ne assms(3) have fin:
    "length (transfer_calls ?tr) = length ?rs \<and> exit_status (main P proc w) = 1 \<and>
     failures ?tr = [e] \<and> console_errors ?tr = [failure_line e] \<and>
     Rejected (JSONParse (?rs ! (N - 1))) e \<in> set ?tr"
    unfolding lastp by blast
  from i enough have "N - 1 < length (transfer_outcomes ?tr)" by simp
  with resolved i have "transfer_outcomes ?tr ! (N - 1)"
    by (simp add: list_all_length)
  with fin len show ?thesis by (simp add: failure_line_def)
qed

theorem unparsable_result_stops_run_witness:
  "(5::nat) \<in> {1..5} \<and>
   transfer_results (trace (main empty_fifth_payload unset_env 0)) =
     [''{}'', ''{}'', ''{}'', ''{}'', []] \<and>
   JSON_parse empty_fifth_payload
     (transfer_results (trace (main empty_fifth_payload unset_env 0)) ! (5 - 1)) =
     Inl (JsError ''SyntaxError'' ''Unexpected end of JSON input'') \<and>
   transfer_outcomes (trace (main empty_fifth_payload unset_env 0)) =
     [True, True, True, True, True] \<and>
   length (submissions (trace (main empty_fifth_payload unset_env 0))) = 6 \<and>
   exit_status (main empty_fifth_payload unset_env 0) = 1"
proof -
  have h1: "(5::nat) \<in> {1..5}" by simp
  have h0: "transfer_results (trace (main empty_fifth_payload unset_env 0)) =
              [''{}'', ''{}'', ''{}'', ''{}'', []]"
    by (simp add: empty_fifth_payload_def scripted_defs observation_defs)
  then have h2: "5 \<le> length (transfer_results (trace (main empty_fifth_payload unset_env 0)))"
    by simp
  have h3: "JSON_parse empty_fifth_payload
              (transfer_results (trace (main empty_fifth_payload unset_env 0)) ! (5 - 1)) =
            Inl (JsError ''SyntaxError'' ''Unexpected end of JSON input'')"
    unfolding h0 by (simp add: empty_fifth_payload_def scripted_def)
  have h4: "transfer_outcomes (trace (main empty_fifth_payload unset_env 0)) =
              [True, True, True, True, True]"
    "length (submissions (trace (main empty_fifth_payload unset_env 0))) = 6"
    by (simp_all add: empty_fifth_payload_def scripted_defs observation_defs)
  from unparsable_result_stops_run [OF h1 h2 h3] h0 h1 h3 h4 show ?thesis by simp
qed

section \<open>The identity that connects\<close>

lemma connect_shape: "connects_as_enrolled [] (trace (main P proc w))"
  apply (rule main_wp)
  unfolding main_try_def main_gateway_body_folded
  apply (intro wp_rules)
  apply (simp_all add: observation_defs org1UserId_def mspOrg1_def)
  done

lemma connects_as_enrolled_nth:
  "connects_as_enrolled seen tr \<Longrightarrow> i < length tr \<Longrightarrow> connect_ok (seen @ take i tr) (tr ! i)"
proof (induction tr arbitrary: seen i)
  case Nil
  then show ?case by simp
next
  case (Cons e tr)
  show ?case
  proof (cases i)
    case 0
    with Cons.prems show ?thesis by simp
  next
    case (Suc k)
    with Cons.prems have "connects_as_enrolled (seen @ [e]) tr" and "k < length tr" by simp_all
    then have "connect_ok ((seen @ [e]) @ take k tr) (tr ! k)" by (rule Cons.IH)
    with Suc show ?thesis by simp
  qed
qed

lemma list_ex_take_nth: "list_ex p (take i xs) \<Longrightarrow> \<exists>j<i. p (xs ! j)"
proof -
  assume "list_ex p (take i xs)"
  then obtain j where "j < length (take i xs)" and "p (take i xs ! j)"
    by (auto simp: list_ex_iff in_set_conv_nth)
  then have "j < i" and "p (xs ! j)" by simp_all
  then show ?thesis by blast
qed

lemma enrolled_admin_into_iff:
  "enrolled_admin_into wlt e \<longleftrightarrow> (\<exists>ca. e = Resolved (EnrollAdmin ca wlt ''Org1MSP''))"
  by (cases "(wlt, e)" rule: enrolled_admin_into.cases) auto

lemma enrolled_user_into_iff:
  "enrolled_user_into wlt uid e \<longleftrightarrow>
     (\<exists>ca. e = Resolved (RegisterAndEnrollUser ca wlt ''Org1MSP'' uid ''org1.department1''))"
  by (cases "(wlt, uid, e)" rule: enrolled_user_into.cases) auto

text \<open>
  Claim C10. Whenever the gateway connects, the identity in its options is the constant
  "javascriptAppUser", and earlier in the same run the admin was enrolled, and that very
  user registered and enrolled, under MSP "Org1MSP" into the wallet object that the
  options carry.
\<close>

theorem connect_uses_enrolled_identity:
  assumes "i < length (trace (main P proc w))"
    and "trace (main P proc w) ! i = Invoke (GatewayConnect g ccp opts)"
  shows "identity opts = ''javascriptAppUser'' \<and>
         (\<exists>j<i. \<exists>ca. trace (main P proc w) ! j =
            Resolved (EnrollAdmin ca (wallet opts) ''Org1MSP'')) \<and>
         (\<exists>j<i. \<exists>ca. trace (main P proc w) ! j =
            Resolved (RegisterAndEnrollUser ca (wallet opts) ''Org1MSP''
                        ''javascriptAppUser'' ''org1.department1''))"
proof -
  let ?tr = "trace (main P proc w)"
  from connects_as_enrolled_nth [OF connect_shape assms(1)] assms(2)
  have ok: "identity opts = ''javascriptAppUser''"
    "list_ex (enrolled_admin_into (wallet opts)) (take i ?tr)"
    "list_ex (enrolled_user_into (wallet opts) ''javascriptAppUser'') (take i ?tr)"
    by auto
  from ok(2) have "\<exists>j<i. enrolled_admin_into (wallet opts) (?tr ! j)"
    by (rule list_ex_take_nth)
  moreover from ok(3) have "\<exists>j<i. enrolled_user_into (wallet opts) ''javascriptAppUser'' (?tr ! j)"
    by (rule list_ex_take_nth)
  ultimately show ?thesis using ok(1)
    by (simp add: enrolled_admin_into_iff enrolled_user_into_iff)
qed

theorem connect_uses_enrolled_identity_witness:
  "11 < length (trace (main all_succeed unset_env 0)) \<and>
   trace (main all_succeed unset_env 0) ! 11 =
     Invoke (GatewayConnect 4 1 \<lparr>wallet = 3, identity = ''javascriptAppUser'',
               discovery_enabled = True, discovery_asLocalhost = True\<rparr>) \<and>
   (\<exists>j<11. \<exists>ca. trace (main all_succeed unset_env 0) ! j =
      Resolved (RegisterAndEnrollUser ca 3 ''Org1MSP'' ''javascriptAppUser''
                  ''org1.department1''))"
proof -
  have h1: "11 < length (trace (main all_succeed unset_env 0))"
    by (simp add: all_succeed_def scripted_defs observation_defs)
  have h2: "trace (main all_succeed unset_env 0) ! 11 =
     Invoke (GatewayConnect 4 1 \<lparr>wallet = 3, identity = ''javascriptAppUser'',
               discovery_enabled = True, discovery_asLocalhost = True\<rparr>)"
    by (simp add: all_succeed_def scripted_defs observation_defs org1UserId_def)
  from connect_uses_enrolled_identity [OF h1 h2] h1 h2 show ?thesis by simp
qed

end
